theory Spec2Isabelle
  imports Main
begin

section \<open>Data model\<close>

text \<open>
  The Go type \<^verbatim>\<open>models.User\<close>, restricted to the columns the two source files read or
  write. The zero value \<^verbatim>\<open>models.User{}\<close> is \<open>empty_User\<close>. Go strings are byte strings,
  as HOL strings are.
\<close>

record User =
  UserID :: int
  Username :: string
  Email :: string
  Password :: string
  Realname :: string
  Comment :: string
  HasAdminRole :: int
  ResetUUID :: string
  Salt :: string
  CreationTime :: nat
  UpdateTime :: nat

definition empty_User :: User where
  "empty_User = \<lparr>UserID = 0, Username = [], Email = [], Password = [], Realname = [],
     Comment = [], HasAdminRole = 0, ResetUUID = [], Salt = [], CreationTime = 0,
     UpdateTime = 0\<rparr>"

text \<open>A Go \<^verbatim>\<open>error\<close> value, by its message.\<close>

datatype error = Err string

fun Error_text :: "error \<Rightarrow> string" where
  "Error_text (Err m) = m"

text \<open>The calls of the database driver that can fail for reasons outside the program.\<close>

datatype db_call = Prepare | Exec | LastInsertId | QueryRows

text \<open>What a handler leaves in the HTTP response when it stops.\<close>

datatype response =
    CustomAbort nat string
  | Abort string
  | ServeJSON bool
  | Redirect string nat
  | Finished

abbreviation StatusFound :: nat where "StatusFound \<equiv> 302"
abbreviation StatusBadRequest :: nat where "StatusBadRequest \<equiv> 400"
abbreviation StatusUnauthorized :: nat where "StatusUnauthorized \<equiv> 401"
abbreviation StatusForbidden :: nat where "StatusForbidden \<equiv> 403"
abbreviation StatusNotFound :: nat where "StatusNotFound \<equiv> 404"
abbreviation StatusInternalServerError :: nat where "StatusInternalServerError \<equiv> 500"

text \<open>\<^verbatim>\<open>http.StatusText\<close>, on the codes above (the standard library's table).\<close>

definition StatusText :: "nat \<Rightarrow> string" where
  "StatusText code =
     (if code = StatusFound then ''Found''
      else if code = StatusBadRequest then ''Bad Request''
      else if code = StatusUnauthorized then ''Unauthorized''
      else if code = StatusForbidden then ''Forbidden''
      else if code = StatusNotFound then ''Not Found''
      else if code = StatusInternalServerError then ''Internal Server Error''
      else [])"

datatype session_value = IntV int | StrV string | BoolV bool

record messageDetail =
  Hint :: string
  URL :: string
  UUID :: string

record EmailSettings =
  EmailHost :: string
  EmailPort :: int
  EmailIdentity :: string
  EmailUsername :: string
  EmailPassword :: string
  EmailSSL :: bool
  EmailInsecure :: bool
  EmailFrom :: string

record OAuthSettings =
  ClientID :: string
  ClientSecret :: string
  AuthURL :: string
  TokenURL :: string

text \<open>
  The signing methods registered by the token library, and the part of a parsed token
  that \<^verbatim>\<open>Oauth\<close> reads: the method named by the header, the standard claims, the signed
  text and the signature.
\<close>

datatype SigningMethod =
    SigningMethodHS256 | SigningMethodHS384 | SigningMethodHS512
  | SigningMethodRS256 | SigningMethodRS384 | SigningMethodRS512
  | SigningMethodES256 | SigningMethodES384 | SigningMethodES512
  | SigningMethodNone

record StandardClaims =
  Subject :: string
  Issuer :: string
  ExpiresAt :: int
  NotBefore :: int
  IssuedAt :: int

record Token =
  Method :: SigningMethod
  Claims :: StandardClaims
  SigningInput :: string
  Signature :: string

text \<open>
  Everything a request reads but never changes: the answers of the collaborators that
  are not in the two source files (configuration, hash function, template engine, mail
  server, OAuth provider, token library primitives, database driver faults, the clock).
\<close>

record env =
  DBFault :: "db_call \<Rightarrow> error option"
  Now :: nat
  Encrypt :: "string \<Rightarrow> string \<Rightarrow> string"
  AuthMode :: "error + string"
  ParseFiles :: "string \<Rightarrow> error + (messageDetail \<Rightarrow> error + string)"
  ExtEndpoint :: "error + string"
  Tr :: "string \<Rightarrow> string"
  EmailCfg :: "error + EmailSettings"
  Send :: "EmailSettings \<Rightarrow> string list \<Rightarrow> string \<Rightarrow> string \<Rightarrow> error option"
  SystemCertPool :: "error option"
  OAuthConf :: "error + OAuthSettings"
  Exchange :: "OAuthSettings \<Rightarrow> string \<Rightarrow> error + string"
  ParseUnverified :: "string \<Rightarrow> error + Token"
  ClaimsValid :: "StandardClaims \<Rightarrow> bool"
  Verify :: "SigningMethod \<Rightarrow> string \<Rightarrow> string \<Rightarrow> string \<Rightarrow> bool"

text \<open>
  Everything a request can change: the rows of table \<^verbatim>\<open>user\<close> in insertion order, the
  last auto-increment id, the session of the caller, the position in the stream of random
  strings, and the mails accepted by the mail server (recipients, subject, body).
\<close>

record world =
  table_user :: "User list"
  last_insert_id :: int
  session :: "string \<rightharpoonup> session_value"
  rand_seq :: "nat \<Rightarrow> string"
  rand_next :: nat
  outbox :: "(string list \<times> string \<times> string) list"

section \<open>Request and session\<close>

text \<open>\<^verbatim>\<open>cc.GetString(key)\<close>: the form value, the empty string when it is absent.\<close>

definition GetString :: "(string \<rightharpoonup> string) \<Rightarrow> string \<Rightarrow> string" where
  "GetString req key = (case req key of None \<Rightarrow> [] | Some v \<Rightarrow> v)"

definition SetSession :: "string \<Rightarrow> session_value \<Rightarrow> world \<Rightarrow> world" where
  "SetSession key v w = w\<lparr>session := (session w)(key \<mapsto> v)\<rparr>"

text \<open>The three \<^verbatim>\<open>cc.SetSession\<close> calls that end \<^verbatim>\<open>Login\<close> and \<^verbatim>\<open>Oauth\<close>, in their order.\<close>

definition issue_session :: "User \<Rightarrow> world \<Rightarrow> world" where
  "issue_session user w =
     SetSession ''isSysAdmin'' (BoolV (HasAdminRole user = 1))
       (SetSession ''username'' (StrV (Username user))
         (SetSession ''userId'' (IntV (UserID user)) w))"

section \<open>The store\<close>

text \<open>
  Modelled from the spec: \<^verbatim>\<open>utils.GenerateRandomString\<close> is not in the source files.
  Section 4.2 asks for a random string; the model draws the next element of a stream, so
  that two draws in a row take two successive elements.
\<close>

definition GenerateRandomString :: "world \<Rightarrow> string \<times> world" where
  "GenerateRandomString w = (rand_seq w (rand_next w), w\<lparr>rand_next := Suc (rand_next w)\<rparr>)"

text \<open>
  The query \<^verbatim>\<open>o.Raw(sql, params).QueryRows(&u)\<close> with the \<^verbatim>\<open>where\<close> clause as a predicate
  on rows: the driver's error, or the rows selected. Column comparison is equality of
  strings.
\<close>

definition QueryRows_user :: "env \<Rightarrow> world \<Rightarrow> (User \<Rightarrow> bool) \<Rightarrow> error + User list" where
  "QueryRows_user e w cond =
     (case DBFault e QueryRows of
        Some err \<Rightarrow> Inl err
      | None \<Rightarrow> Inr (filter cond (table_user w)))"

text \<open>
  Modelled from the spec: the schema of table \<^verbatim>\<open>user\<close> is not in the source files.
  Sections 4.1 and 5 put a uniqueness constraint on username and on email at the store, and
  section 3 has the store assign \<open>userID\<close> once at creation and never reuse it. An insert
  that violates the constraint fails and changes nothing; otherwise the row is appended
  under the next id.
\<close>

definition Exec_insert_user :: "env \<Rightarrow> world \<Rightarrow> User \<Rightarrow> (error + int) \<times> world" where
  "Exec_insert_user e w row =
     (case DBFault e Exec of
        Some err \<Rightarrow> (Inl err, w)
      | None \<Rightarrow>
          if list_ex (\<lambda>r. Username r = Username row \<or> Email r = Email row) (table_user w)
          then (Inl (Err ''duplicate identity''), w)
          else (Inr (last_insert_id w + 1),
                w\<lparr>table_user := table_user w @ [row\<lparr>UserID := last_insert_id w + 1\<rparr>],
                  last_insert_id := last_insert_id w + 1\<rparr>))"

text \<open>
  \<^verbatim>\<open>dao.Register\<close>. The insert statement names nine columns; \<^verbatim>\<open>user_id\<close> is assigned by
  the store and \<^verbatim>\<open>reset_uuid\<close> keeps its default, the empty token.
\<close>

definition dao_Register :: "env \<Rightarrow> world \<Rightarrow> User \<Rightarrow> (error + int) \<times> world" where
  "dao_Register e w user =
     (case DBFault e Prepare of
        Some err \<Rightarrow> (Inl err, w)
      | None \<Rightarrow>
          (case GenerateRandomString w of
             (salt, w1) \<Rightarrow>
               (case Exec_insert_user e w1
                       \<lparr>UserID = 0, Username = Username user, Email = Email user,
                        Password = Encrypt e (Password user) salt, Realname = Realname user,
                        Comment = Comment user, HasAdminRole = HasAdminRole user,
                        ResetUUID = [], Salt = salt, CreationTime = Now e,
                        UpdateTime = Now e\<rparr> of
                  (Inl err, w2) \<Rightarrow> (Inl err, w2)
                | (Inr userID, w2) \<Rightarrow>
                    (case DBFault e LastInsertId of
                       Some err \<Rightarrow> (Inl err, w2)
                     | None \<Rightarrow> (Inr userID, w2)))))"

text \<open>\<^verbatim>\<open>dao.UserExists\<close>. An unknown target adds no condition to \<^verbatim>\<open>where 1=1\<close>.\<close>

definition dao_UserExists :: "env \<Rightarrow> world \<Rightarrow> User \<Rightarrow> string \<Rightarrow> error + bool" where
  "dao_UserExists e w user target =
     (if Username user = [] \<and> Email user = [] \<and> Realname user = []
      then Inl (Err ''user name, email, and realname are blank'')
      else
        (case QueryRows_user e w
                (if target = ''username'' then (\<lambda>r. Username r = Username user)
                 else if target = ''email'' then (\<lambda>r. Email r = Email user)
                 else if target = ''realname'' then (\<lambda>r. Realname r = Realname user)
                 else (\<lambda>r. True)) of
           Inl err \<Rightarrow> Inl err
         | Inr u \<Rightarrow> if length u = 0 then Inr False else Inr True))"

text \<open>
  Modelled from the spec: \<^verbatim>\<open>dao.GetUser\<close> is not in the source files. Section 4.1 has
  \<open>lookup(criteria)\<close> return the user or nothing and fail on criteria that constrain
  nothing; section 4.4 looks a user up by the reset token alone, so the token counts among
  the criteria next to username, email and realname. Every field of the criteria that is
  not empty must agree with the row; the first such row is the answer.
\<close>

definition dao_GetUser :: "env \<Rightarrow> world \<Rightarrow> User \<Rightarrow> error + User option" where
  "dao_GetUser e w query =
     (if Username query = [] \<and> Email query = [] \<and> Realname query = [] \<and> ResetUUID query = []
      then Inl (Err ''user name, email, and realname are blank'')
      else
        (case QueryRows_user e w
                (\<lambda>r. (if Username query = [] then True else Username r = Username query)
                    \<and> (if Email query = [] then True else Email r = Email query)
                    \<and> (if Realname query = [] then True else Realname r = Realname query)
                    \<and> (if ResetUUID query = [] then True else ResetUUID r = ResetUUID query)) of
           Inl err \<Rightarrow> Inl err
         | Inr [] \<Rightarrow> Inr None
         | Inr (u # rest) \<Rightarrow> Inr (Some u)))"

text \<open>
  Modelled from the spec: \<^verbatim>\<open>dao.UpdateUserResetUUID\<close> is not in the source files. The
  handler passes a user that carries only the new token and the email; section 4.4 stores
  the token as that user's \<open>resetUUID\<close>, overwriting an older one (section 3).
\<close>

definition dao_UpdateUserResetUUID :: "env \<Rightarrow> world \<Rightarrow> User \<Rightarrow> error option \<times> world" where
  "dao_UpdateUserResetUUID e w user =
     (case DBFault e Exec of
        Some err \<Rightarrow> (Some err, w)
      | None \<Rightarrow>
          (None, w\<lparr>table_user :=
             map (\<lambda>r. if Email r = Email user
                       then r\<lparr>ResetUUID := ResetUUID user, UpdateTime := Now e\<rparr> else r)
               (table_user w)\<rparr>))"

text \<open>
  Modelled from the spec: \<^verbatim>\<open>dao.ResetUserPassword\<close> is not in the source files. Section
  4.4: redeeming re-salts and re-hashes, persists, and clears the token, as one mutation of
  the store. The mutation applies to the record that holds the redeemed token.
\<close>

definition dao_ResetUserPassword :: "env \<Rightarrow> world \<Rightarrow> User \<Rightarrow> error option \<times> world" where
  "dao_ResetUserPassword e w user =
     (case DBFault e Exec of
        Some err \<Rightarrow> (Some err, w)
      | None \<Rightarrow>
          (case GenerateRandomString w of
             (salt, w1) \<Rightarrow>
               (None, w1\<lparr>table_user :=
                  map (\<lambda>r. if ResetUUID r = ResetUUID user
                            then r\<lparr>Password := Encrypt e (Password user) salt, Salt := salt,
                                   ResetUUID := [], UpdateTime := Now e\<rparr>
                            else r)
                    (table_user w1)\<rparr>)))"

text \<open>
  Modelled from the spec: \<^verbatim>\<open>dao.OnBoardUser\<close> is not in the source files. Sections 4.1 and
  4.5: create-if-absent keyed by the onboarding identity, the username derived from the
  token's subject. A user of that name is reused as it is stored; otherwise a row is
  inserted with no local password. The Go function updates the user it is given through
  the pointer; the model returns that user.
\<close>

definition dao_OnBoardUser :: "env \<Rightarrow> world \<Rightarrow> User \<Rightarrow> (error + User) \<times> world" where
  "dao_OnBoardUser e w u =
     (case QueryRows_user e w (\<lambda>r. Username r = Username u) of
        Inl err \<Rightarrow> (Inl err, w)
      | Inr (existing # rest) \<Rightarrow> (Inr existing, w)
      | Inr [] \<Rightarrow>
          (case Exec_insert_user e w
                  (u\<lparr>Password := [], Salt := [], ResetUUID := [], CreationTime := Now e,
                     UpdateTime := Now e\<rparr>) of
             (Inl err, w1) \<Rightarrow> (Inl err, w1)
           | (Inr userID, w1) \<Rightarrow>
               (Inr (u\<lparr>UserID := userID, Password := [], Salt := [], ResetUUID := [],
                       CreationTime := Now e, UpdateTime := Now e\<rparr>), w1)))"

text \<open>
  \<^verbatim>\<open>models.AuthModel\<close>, as \<^verbatim>\<open>Login\<close> fills it. Its second field is \<^verbatim>\<open>Password\<close> in
  Go; the name is taken by the user's column here.
\<close>

record AuthModel =
  Principal :: string
  AuthPassword :: string

text \<open>
  Modelled from the spec: \<^verbatim>\<open>auth.Login\<close> is not in the source files. Section 4.3: look the
  user up by the principal (username or email), an empty principal being criteria that
  constrain nothing; verify the secret by hashing it with the stored salt (section 4.2) and
  comparing with the stored hash. No user and a wrong secret both give no user.
\<close>

definition auth_Login :: "env \<Rightarrow> world \<Rightarrow> AuthModel \<Rightarrow> error + User option" where
  "auth_Login e w m =
     (if Principal m = [] then Inl (Err ''user name, email, and realname are blank'')
      else
        (case QueryRows_user e w (\<lambda>r. Username r = Principal m \<or> Email r = Principal m) of
           Inl err \<Rightarrow> Inl err
         | Inr [] \<Rightarrow> Inr None
         | Inr (u # rest) \<Rightarrow>
             if Encrypt e (AuthPassword m) (Salt u) = Password u then Inr (Some u)
             else Inr None))"

section \<open>Regular expressions\<close>

text \<open>
  \<^verbatim>\<open>regexp.MatchString\<close> on a compiled pattern, by derivatives. A class is a list of bytes,
  negated or not. The constructors \<open>alt\<close> and \<open>seq\<close> drop the empty language as they
  build a derivative.
\<close>

datatype regexp = Zero | One | Atom bool "char list" | Alt regexp regexp
  | Seq regexp regexp | Star regexp

fun nullable :: "regexp \<Rightarrow> bool" where
  "nullable Zero = False"
| "nullable One = True"
| "nullable (Atom neg cs) = False"
| "nullable (Alt r s) = (nullable r \<or> nullable s)"
| "nullable (Seq r s) = (nullable r \<and> nullable s)"
| "nullable (Star r) = True"

fun alt :: "regexp \<Rightarrow> regexp \<Rightarrow> regexp" where
  "alt Zero s = s"
| "alt r Zero = r"
| "alt r s = Alt r s"

fun seq :: "regexp \<Rightarrow> regexp \<Rightarrow> regexp" where
  "seq Zero s = Zero"
| "seq r Zero = Zero"
| "seq One s = s"
| "seq r s = Seq r s"

fun deriv :: "char \<Rightarrow> regexp \<Rightarrow> regexp" where
  "deriv c Zero = Zero"
| "deriv c One = Zero"
| "deriv c (Atom neg cs) = (if (c \<in> set cs) \<noteq> neg then One else Zero)"
| "deriv c (Alt r s) = alt (deriv c r) (deriv c s)"
| "deriv c (Seq r s) =
     (if nullable r then alt (seq (deriv c r) s) (deriv c s) else seq (deriv c r) s)"
| "deriv c (Star r) = seq (deriv c r) (Star r)"

definition matches :: "regexp \<Rightarrow> string \<Rightarrow> bool" where
  "matches r s = nullable (foldl (\<lambda>r c. deriv c r) r s)"

text \<open>
  The language of a pattern, as the reference for the matcher: \<open>kleene A\<close> is the set of
  concatenations of finitely many strings of \<open>A\<close>.
\<close>

inductive_set kleene :: "string set \<Rightarrow> string set" for A :: "string set" where
  kleene_nil: "[] \<in> kleene A"
| kleene_app: "u \<in> A \<Longrightarrow> v \<in> kleene A \<Longrightarrow> u @ v \<in> kleene A"

fun lang :: "regexp \<Rightarrow> string set" where
  "lang Zero = {}"
| "lang One = {[]}"
| "lang (Atom neg cs) = {[c] | c. (c \<in> set cs) \<noteq> neg}"
| "lang (Alt r s) = lang r \<union> lang s"
| "lang (Seq r s) = {u @ v | u v. u \<in> lang r \<and> v \<in> lang s}"
| "lang (Star r) = kleene (lang r)"

text \<open>A constant pattern compiles, so the error of \<^verbatim>\<open>MatchString\<close> never occurs.\<close>

definition regexp_MatchString :: "regexp \<Rightarrow> string \<Rightarrow> error + bool" where
  "regexp_MatchString pattern s = Inr (matches pattern s)"

definition plus :: "regexp \<Rightarrow> regexp" where
  "plus r = Seq r (Star r)"

definition opt :: "regexp \<Rightarrow> regexp" where
  "opt r = Alt r One"

definition lit :: "char \<Rightarrow> regexp" where
  "lit c = Atom False [c]"

text \<open>
  The pattern of \<^verbatim>\<open>SendResetEmail\<close>, anchored at both ends, piece by piece:
  \<open>local_char\<close> is the negated class of the local part (the bytes 0x5C and 0x22 are the
  backslash and the double quote, \<^verbatim>\<open>\s\<close> is tab, newline, form feed, return and space),
  \<open>any_char\<close> is the dot, \<open>octet\<close> is \<^verbatim>\<open>[0-9]{1,3}\<close>, \<open>label_char\<close> is
  \<^verbatim>\<open>[a-zA-Z\-0-9]\<close> and the domain ends in \<^verbatim>\<open>[a-zA-Z]{2,}\<close>.
\<close>

definition local_char :: regexp where
  "local_char = Atom True [CHR ''<'', CHR ''>'', CHR ''('', CHR '')'', CHR ''['', CHR '']'',
     CHR 0x5C, CHR ''.'', CHR '','', CHR '';'', CHR '':'', CHR 0x09, CHR 0x0A, CHR 0x0C,
     CHR 0x0D, CHR '' '', CHR ''@'', CHR 0x22]"

definition any_char :: regexp where
  "any_char = Atom True [CHR 0x0A]"

definition digit :: regexp where
  "digit = Atom False ''0123456789''"

definition alpha :: regexp where
  "alpha = Atom False ''abcdefghijklmnopqrstuvwxyzABCDEFGHIJKLMNOPQRSTUVWXYZ''"

definition label_char :: regexp where
  "label_char = Atom False
     ''abcdefghijklmnopqrstuvwxyzABCDEFGHIJKLMNOPQRSTUVWXYZ-0123456789''"

definition octet :: regexp where
  "octet = Seq digit (opt (Seq digit (opt digit)))"

definition email_pattern :: regexp where
  "email_pattern =
     Seq (Alt (Seq (plus local_char) (Star (Seq (lit CHR ''.'') (plus local_char))))
              (Seq (lit (CHR 0x22)) (Seq (plus any_char) (lit (CHR 0x22)))))
       (Seq (lit CHR ''@'')
          (Alt (Seq (lit CHR ''['') (Seq octet (Seq (lit CHR ''.'') (Seq octet
                  (Seq (lit CHR ''.'') (Seq octet (Seq (lit CHR ''.'')
                     (Seq octet (lit CHR '']'')))))))))
               (Seq (plus (Seq (plus label_char) (lit CHR ''.'')))
                  (Seq alpha (Seq alpha (Star alpha))))))"

section \<open>Handlers\<close>

text \<open>\<^verbatim>\<open>CommonController.UserExists\<close>.\<close>

definition UserExists :: "env \<Rightarrow> (string \<rightharpoonup> string) \<Rightarrow> world \<Rightarrow> response \<times> world" where
  "UserExists e req w =
     (let target = GetString req ''target'';
          v = GetString req ''value'';
          user = (if target = ''username'' then empty_User\<lparr>Username := v\<rparr>
                  else if target = ''email'' then empty_User\<lparr>Email := v\<rparr>
                  else empty_User)
      in case dao_UserExists e w user target of
           Inl err \<Rightarrow> (CustomAbort StatusInternalServerError ''Internal error.'', w)
         | Inr exist \<Rightarrow> (ServeJSON exist, w))"

text \<open>
  Modelled from the spec: the constant \<^verbatim>\<open>common.DBAuth\<close> is not in the source files. It
  names the local-password authentication mode of section 4.4.
\<close>

definition DBAuth :: string where
  "DBAuth = ''db_auth''"

text \<open>\<^verbatim>\<open>isUserResetable\<close>. The pointer argument may be nil.\<close>

definition isUserResetable :: "env \<Rightarrow> User option \<Rightarrow> bool" where
  "isUserResetable e u =
     (case u of
        None \<Rightarrow> False
      | Some user \<Rightarrow>
          (case AuthMode e of
             Inl err \<Rightarrow> False
           | Inr mode \<Rightarrow> if mode = DBAuth then True else UserID user = 1))"

text \<open>\<^verbatim>\<open>createUser\<close>.\<close>

definition createUser :: "env \<Rightarrow> world \<Rightarrow> User \<Rightarrow> (error + User) \<times> world" where
  "createUser e w u =
     (case dao_OnBoardUser e w u of
        (Inl err, w1) \<Rightarrow> (Inl err, w1)
      | (Inr user, w1) \<Rightarrow> (Inr user, w1))"

text \<open>\<^verbatim>\<open>CommonController.Login\<close>. \<^verbatim>\<open>CustomAbort\<close> ends the handler.\<close>

definition Login :: "env \<Rightarrow> (string \<rightharpoonup> string) \<Rightarrow> world \<Rightarrow> response \<times> world" where
  "Login e req w =
     (let principal = GetString req ''principal'';
          password = GetString req ''password''
      in case auth_Login e w \<lparr>Principal = principal, AuthPassword = password\<rparr> of
           Inl err \<Rightarrow> (CustomAbort StatusUnauthorized [], w)
         | Inr None \<Rightarrow> (CustomAbort StatusUnauthorized [], w)
         | Inr (Some user) \<Rightarrow> (Finished, issue_session user w))"

text \<open>\<^verbatim>\<open>CommonController.LogOut\<close>.\<close>

definition LogOut :: "env \<Rightarrow> (string \<rightharpoonup> string) \<Rightarrow> world \<Rightarrow> response \<times> world" where
  "LogOut e req w = (Finished, w\<lparr>session := Map.empty\<rparr>)"

text \<open>
  \<^verbatim>\<open>CommonController.SendResetEmail\<close>. The mail server's address is computed from the
  settings alone, so \<open>Send\<close> takes the settings; a mail it accepts is added to the outbox.
\<close>

definition SendResetEmail :: "env \<Rightarrow> (string \<rightharpoonup> string) \<Rightarrow> world \<Rightarrow> response \<times> world" where
  "SendResetEmail e req w =
     (let email = GetString req ''email'' in
      case regexp_MatchString email_pattern email of
        Inl err \<Rightarrow> (CustomAbort StatusInternalServerError ''Internal error.'', w)
      | Inr valid \<Rightarrow>
          if \<not> valid then (CustomAbort StatusBadRequest ''invalid email'', w)
          else
            (case dao_GetUser e w (empty_User\<lparr>Email := email\<rparr>) of
               Inl err \<Rightarrow> (CustomAbort StatusInternalServerError ''Internal error.'', w)
             | Inr None \<Rightarrow> (CustomAbort StatusNotFound ''email_does_not_exist'', w)
             | Inr (Some u) \<Rightarrow>
                 if \<not> isUserResetable e (Some u)
                 then (CustomAbort StatusForbidden (StatusText StatusForbidden), w)
                 else
                   (case GenerateRandomString w of
                      (uuid, w1) \<Rightarrow>
                        (case dao_UpdateUserResetUUID e w1
                                (empty_User\<lparr>ResetUUID := uuid, Email := email\<rparr>) of
                           (Some err, w2) \<Rightarrow>
                             (CustomAbort StatusInternalServerError
                                (StatusText StatusInternalServerError), w2)
                         | (None, w2) \<Rightarrow>
                             (case ParseFiles e ''views/reset-password-mail.tpl'' of
                                Inl err \<Rightarrow>
                                  (CustomAbort StatusInternalServerError (Error_text err), w2)
                              | Inr messageTemplate \<Rightarrow>
                                  (case ExtEndpoint e of
                                     Inl err \<Rightarrow>
                                       (CustomAbort StatusInternalServerError
                                          (StatusText StatusInternalServerError), w2)
                                   | Inr harborURL \<Rightarrow>
                                       (case messageTemplate
                                               \<lparr>Hint = Tr e ''reset_email_hint'',
                                                URL = harborURL, UUID = uuid\<rparr> of
                                          Inl err \<Rightarrow>
                                            (CustomAbort StatusInternalServerError
                                               ''internal_error'', w2)
                                        | Inr message \<Rightarrow>
                                            (case EmailCfg e of
                                               Inl err \<Rightarrow>
                                                 (CustomAbort StatusInternalServerError
                                                    ''internal_error'', w2)
                                             | Inr settings \<Rightarrow>
                                                 (case Send e settings [email]
                                                         ''Reset Harbor user password''
                                                         message of
                                                    Some err \<Rightarrow>
                                                      (CustomAbort StatusInternalServerError
                                                         ''send_email_failed'', w2)
                                                  | None \<Rightarrow>
                                                      (Finished,
                                                       w2\<lparr>outbox := outbox w2 @
                                                         [([email],
                                                           ''Reset Harbor user password'',
                                                           message)]\<rparr>))))))))))"

text \<open>\<^verbatim>\<open>CommonController.ResetPassword\<close>.\<close>

definition ResetPassword :: "env \<Rightarrow> (string \<rightharpoonup> string) \<Rightarrow> world \<Rightarrow> response \<times> world" where
  "ResetPassword e req w =
     (let resetUUID = GetString req ''reset_uuid'' in
      if resetUUID = [] then (CustomAbort StatusBadRequest ''Reset uuid is blank.'', w)
      else
        (case dao_GetUser e w (empty_User\<lparr>ResetUUID := resetUUID\<rparr>) of
           Inl err \<Rightarrow> (CustomAbort StatusInternalServerError ''Internal error.'', w)
         | Inr None \<Rightarrow> (CustomAbort StatusBadRequest ''User does not exist'', w)
         | Inr (Some user) \<Rightarrow>
             if \<not> isUserResetable e (Some user)
             then (CustomAbort StatusForbidden (StatusText StatusForbidden), w)
             else
               (let password = GetString req ''password'' in
                if password \<noteq> [] then
                  (case dao_ResetUserPassword e w (user\<lparr>Password := password\<rparr>) of
                     (Some err, w1) \<Rightarrow>
                       (CustomAbort StatusInternalServerError ''Internal error.'', w1)
                   | (None, w1) \<Rightarrow> (Finished, w1))
                else (CustomAbort StatusBadRequest ''password_is_required'', w))))"

text \<open>
  Modelled from the spec: \<^verbatim>\<open>jwtgo.ParseWithClaims\<close> belongs to a library that is not in
  the source files. Section 4.5, step 3: the access token is parsed as a signed claims
  object, the key function given by the caller decides on the token's signing method
  before any signature is checked, and a token is accepted only when the key function
  yields a key, the claims are valid and the signature verifies under that key. Decoding,
  claim validation and signature verification are the library's primitives, taken from the
  environment.
\<close>

definition jwtgo_ParseWithClaims ::
    "env \<Rightarrow> string \<Rightarrow> (Token \<Rightarrow> error + string) \<Rightarrow> error + Token" where
  "jwtgo_ParseWithClaims e tokenString keyFunc =
     (case ParseUnverified e tokenString of
        Inl err \<Rightarrow> Inl err
      | Inr token \<Rightarrow>
          (case keyFunc token of
             Inl err \<Rightarrow> Inl err
           | Inr key \<Rightarrow>
               if ClaimsValid e (Claims token)
                  \<and> Verify e (Method token) (SigningInput token) (Signature token) key
               then Inr token
               else Inl (Err ''token is invalid'')))"

text \<open>The key function that \<^verbatim>\<open>Oauth\<close> passes to the parser.\<close>

definition Oauth_keyFunc :: "Token \<Rightarrow> error + string" where
  "Oauth_keyFunc t =
     (if Method t \<noteq> SigningMethodHS256 then Inl (Err ''only HS256 signing is supported'')
      else Inr ''a92d1e15853ff92ad0dd772ee3f2a98564526f7d4e3e2892764dbc066b0e61cd'')"

text \<open>
  \<^verbatim>\<open>CommonController.Oauth\<close>. The HTTP client and its TLS settings only reach the
  provider through \<^verbatim>\<open>Exchange\<close>, whose answer is the environment's.
\<close>

definition Oauth :: "env \<Rightarrow> (string \<rightharpoonup> string) \<Rightarrow> world \<Rightarrow> response \<times> world" where
  "Oauth e req w =
     (case SystemCertPool e of
        Some err \<Rightarrow> (CustomAbort StatusInternalServerError ''SSL error'', w)
      | None \<Rightarrow>
          (case OAuthConf e of
             Inl err \<Rightarrow> (CustomAbort StatusInternalServerError ''error loading config'', w)
           | Inr cfg \<Rightarrow>
               (case Exchange e cfg (GetString req ''code'') of
                  Inl err \<Rightarrow>
                    (CustomAbort StatusInternalServerError ''error retrieving oauth token'', w)
                | Inr accessToken \<Rightarrow>
                    (case jwtgo_ParseWithClaims e accessToken Oauth_keyFunc of
                       Inl err \<Rightarrow>
                         (CustomAbort StatusInternalServerError
                            ''error parsing oauth response'', w)
                     | Inr data \<Rightarrow>
                         (case createUser e w
                                 (empty_User\<lparr>Username := Subject (Claims data),
                                    Email := Subject (Claims data) @ ''@''
                                               @ Issuer (Claims data)\<rparr>) of
                            (Inl err, w1) \<Rightarrow> (Abort ''500'', w1)
                          | (Inr user, w1) \<Rightarrow>
                              (Redirect ''/harbor'' StatusFound, issue_session user w1))))))"

text \<open>
  The world after the two writes of \<^verbatim>\<open>SendResetEmail\<close>, the draw of the token and the
  update of the rows with the address; a name for it, used to state the lemmas of the
  request.
\<close>

definition token_stored :: "env \<Rightarrow> string \<Rightarrow> world \<Rightarrow> world" where
  "token_stored e email w =
     w\<lparr>rand_next := Suc (rand_next w),
       table_user :=
         map (\<lambda>r. if Email r = email
                   then r\<lparr>ResetUUID := rand_seq w (rand_next w), UpdateTime := Now e\<rparr>
                   else r)
           (table_user w)\<rparr>"

section \<open>Sample inputs\<close>

definition sample_settings :: EmailSettings where
  "sample_settings = \<lparr>EmailHost = ''smtp.example.com'', EmailPort = 25, EmailIdentity = [],
     EmailUsername = ''harbor'', EmailPassword = ''pw'', EmailSSL = False,
     EmailInsecure = False, EmailFrom = ''admin@example.com''\<rparr>"

definition sample_oauth :: OAuthSettings where
  "sample_oauth = \<lparr>ClientID = ''id'', ClientSecret = ''secret'',
     AuthURL = ''https://idp.example.com/auth'', TokenURL = ''https://idp.example.com/token''\<rparr>"

text \<open>
  A provider that answers the code \<open>''c1''\<close> with a well-signed HS256 token for subject
  \<open>''carol''\<close>, and every other code with a token whose header names RS256.
\<close>

definition sample_token :: "SigningMethod \<Rightarrow> Token" where
  "sample_token m = \<lparr>Method = m,
     Claims = \<lparr>Subject = ''carol'', Issuer = ''idp'', ExpiresAt = 0, NotBefore = 0, IssuedAt = 0\<rparr>,
     SigningInput = ''h.c'', Signature = ''sig''\<rparr>"

definition sample_env :: env where
  "sample_env = \<lparr>DBFault = (\<lambda>c. None), Now = 7,
     Encrypt = (\<lambda>p s. ''H:'' @ s @ '':'' @ p),
     AuthMode = Inr ''ldap_auth'',
     ParseFiles = (\<lambda>f. Inr (\<lambda>d. Inr (Hint d @ '' '' @ URL d @ ''/reset?uuid='' @ UUID d))),
     ExtEndpoint = Inr ''https://harbor.example.com'',
     Tr = (\<lambda>k. k),
     EmailCfg = Inr sample_settings,
     Send = (\<lambda>s to subj body. None),
     SystemCertPool = None,
     OAuthConf = Inr sample_oauth,
     Exchange = (\<lambda>c code. Inr code),
     ParseUnverified = (\<lambda>s. Inr (sample_token (if s = ''c1'' then SigningMethodHS256
                                                 else SigningMethodRS256))),
     ClaimsValid = (\<lambda>c. True),
     Verify = (\<lambda>m input sig key. sig = ''sig'')\<rparr>"

definition sample_admin :: User where
  "sample_admin = \<lparr>UserID = 1, Username = ''admin'', Email = ''admin@example.com'',
     Password = ''H:s1:Harbor12345'', Realname = ''system admin'', Comment = [],
     HasAdminRole = 1, ResetUUID = [], Salt = ''s1'', CreationTime = 1, UpdateTime = 1\<rparr>"

definition sample_alice :: User where
  "sample_alice = \<lparr>UserID = 2, Username = ''alice'', Email = ''alice@example.com'',
     Password = ''H:s2:wonderland'', Realname = ''Alice'', Comment = [],
     HasAdminRole = 0, ResetUUID = ''tok'', Salt = ''s2'', CreationTime = 2, UpdateTime = 2\<rparr>"


definition sample_world :: world where
  "sample_world = \<lparr>table_user = [sample_admin, sample_alice], last_insert_id = 2,
     session = Map.empty, rand_seq = (\<lambda>n. CHR ''r'' # replicate n CHR ''x''), rand_next = 0,
     outbox = []\<rparr>"

section \<open>The matcher decides the language of the pattern\<close>

lemma nullable_lang: "nullable r \<longleftrightarrow> [] \<in> lang r"
  by (induction r) (auto intro: kleene_nil)

lemma lang_alt: "lang (alt r s) = lang r \<union> lang s"
  by (induction r s rule: alt.induct) auto

lemma lang_seq: "lang (seq r s) = lang (Seq r s)"
  by (induction r s rule: seq.induct) auto

lemma kleene_cons:
  "c # s \<in> kleene A \<longleftrightarrow> (\<exists>u v. s = u @ v \<and> c # u \<in> A \<and> v \<in> kleene A)"
proof
  assume "c # s \<in> kleene A"
  then show "\<exists>u v. s = u @ v \<and> c # u \<in> A \<and> v \<in> kleene A"
  proof (induction "c # s" rule: kleene.induct)
    case (kleene_app u v)
    show ?case
    proof (cases u)
      case Nil
      with kleene_app show ?thesis by simp
    next
      case (Cons d u')
      with kleene_app show ?thesis by auto
    qed
  qed
next
  assume "\<exists>u v. s = u @ v \<and> c # u \<in> A \<and> v \<in> kleene A"
  then obtain u v where "s = u @ v" "c # u \<in> A" "v \<in> kleene A"
    by blast
  then show "c # s \<in> kleene A"
    using kleene_app [of "c # u" A v] by simp
qed

lemma lang_deriv: "lang (deriv c r) = {s. c # s \<in> lang r}"
proof (induction r)
  case (Seq r1 r2)
  have "{s. c # s \<in> lang (Seq r1 r2)}
          = {u @ v | u v. c # u \<in> lang r1 \<and> v \<in> lang r2}
            \<union> (if nullable r1 then {s. c # s \<in> lang r2} else {})"
    by (auto simp: nullable_lang Cons_eq_append_conv)
  with Seq show ?case
    by (auto simp: lang_alt lang_seq)
next
  case (Star r)
  then show ?case
    by (auto simp: lang_seq kleene_cons)
qed (auto simp: lang_alt)

lemma matches_lang: "matches r s \<longleftrightarrow> s \<in> lang r"
  unfolding matches_def
proof (induction s arbitrary: r)
  case Nil
  show ?case by (simp add: nullable_lang)
next
  case (Cons c s)
  then show ?case by (simp add: lang_deriv)
qed

lemma email_pattern_examples:
  "matches email_pattern ''a.b@[10.0.0.1]''"
  "\<not> matches email_pattern ''alice@example''"
  "\<not> matches email_pattern ''a..b@example.com''"
  "\<not> matches email_pattern ''alice smith@example.com''"
  by code_simp+


section \<open>Identity lookups\<close>

text \<open>
  C9. An existence query whose username, email and realname are all empty fails with the
  error "user name, email, and realname are blank" (the invalid-query error): the answer
  is an error, never the answer "no such user", whatever the target, the rows of the table
  and the state of the database connection.
\<close>

theorem dao_UserExists_blank_is_error:
  "Username user = [] \<Longrightarrow> Email user = [] \<Longrightarrow> Realname user = [] \<Longrightarrow>
     dao_UserExists e w user target = Inl (Err ''user name, email, and realname are blank'')
     \<and> dao_UserExists e w user target \<noteq> Inr False"
  by (simp add: dao_UserExists_def)

theorem dao_UserExists_blank_is_error_witness:
  "dao_UserExists sample_env sample_world (empty_User\<lparr>Comment := ''x''\<rparr>) ''username''
     = Inl (Err ''user name, email, and realname are blank'')
   \<and> dao_UserExists sample_env sample_world (empty_User\<lparr>Comment := ''x''\<rparr>) ''username''
     \<noteq> Inr False"
  using dao_UserExists_blank_is_error
    [of "empty_User\<lparr>Comment := ''x''\<rparr>" sample_env sample_world "''username''"]
  by (simp add: empty_User_def)

text \<open>
  C10. When the target of the existence check is neither "username" nor "email", the
  handler discards the value: the criteria stay empty, the store answers with the
  blank-criteria error, and the caller gets status 500 "Internal error.", never a true or
  false answer, whatever the value and whatever users exist.
\<close>

theorem UserExists_other_target_is_internal_error:
  "GetString req ''target'' \<noteq> ''username'' \<Longrightarrow> GetString req ''target'' \<noteq> ''email'' \<Longrightarrow>
     UserExists e req w = (CustomAbort StatusInternalServerError ''Internal error.'', w)
     \<and> (\<forall>b. fst (UserExists e req w) \<noteq> ServeJSON b)"
  by (simp add: UserExists_def Let_def dao_UserExists_def empty_User_def)

theorem UserExists_other_target_is_internal_error_witness:
  "UserExists sample_env [''target'' \<mapsto> ''realname'', ''value'' \<mapsto> ''Alice''] sample_world
     = (CustomAbort StatusInternalServerError ''Internal error.'', sample_world)
   \<and> (\<forall>b. fst (UserExists sample_env [''target'' \<mapsto> ''realname'', ''value'' \<mapsto> ''Alice'']
              sample_world) \<noteq> ServeJSON b)"
  using UserExists_other_target_is_internal_error
    [of "[''target'' \<mapsto> ''realname'', ''value'' \<mapsto> ''Alice'']" sample_env sample_world]
  by (simp add: GetString_def)

section \<open>OAuth completion\<close>

text \<open>
  C1. When the access token returned by the provider names a signing method other than
  HS256, the key function refuses it, the parser returns that error, and \<^verbatim>\<open>Oauth\<close> stops
  with the response "error parsing oauth response" (the invalid-token outcome, status
  500): the world is returned as it was, so no session value is set and no user row is
  created or changed.
\<close>

theorem Oauth_rejects_other_signing_method:
  assumes "SystemCertPool e = None"
    and "OAuthConf e = Inr cfg"
    and "Exchange e cfg (GetString req ''code'') = Inr accessToken"
    and "ParseUnverified e accessToken = Inr t"
    and "Method t \<noteq> SigningMethodHS256"
  shows "jwtgo_ParseWithClaims e accessToken Oauth_keyFunc
           = Inl (Err ''only HS256 signing is supported'')
         \<and> Oauth e req w
             = (CustomAbort StatusInternalServerError ''error parsing oauth response'', w)
         \<and> session (snd (Oauth e req w)) = session w
         \<and> table_user (snd (Oauth e req w)) = table_user w"
proof -
  have k: "Oauth_keyFunc t = Inl (Err ''only HS256 signing is supported'')"
    using assms(5) by (simp add: Oauth_keyFunc_def)
  have p: "jwtgo_ParseWithClaims e accessToken Oauth_keyFunc
             = Inl (Err ''only HS256 signing is supported'')"
    using assms(4) k by (simp add: jwtgo_ParseWithClaims_def)
  have o: "Oauth e req w
             = (CustomAbort StatusInternalServerError ''error parsing oauth response'', w)"
    using assms(1-3) p by (simp add: Oauth_def)
  from p o show ?thesis by simp
qed

theorem Oauth_rejects_other_signing_method_witness:
  "Method (sample_token SigningMethodRS256) \<noteq> SigningMethodHS256
   \<and> Oauth sample_env [''code'' \<mapsto> ''c2''] sample_world
       = (CustomAbort StatusInternalServerError ''error parsing oauth response'', sample_world)
   \<and> session (snd (Oauth sample_env [''code'' \<mapsto> ''c2''] sample_world)) = Map.empty
   \<and> table_user (snd (Oauth sample_env [''code'' \<mapsto> ''c2''] sample_world))
       = [sample_admin, sample_alice]"
  using Oauth_rejects_other_signing_method
    [of sample_env sample_oauth "[''code'' \<mapsto> ''c2'']" "''c2''"
        "sample_token SigningMethodRS256" sample_world]
  by (simp add: sample_env_def sample_token_def sample_world_def GetString_def)

section \<open>Local login\<close>

text \<open>
  C2. \<^verbatim>\<open>Login\<close> reads the principal and the password from the request. When no user
  matches the principal the handler stops with status 401 and an empty body; when a user
  matches and the password does not verify against the stored salt and hash it stops with
  the same status, the same empty body and the same unchanged world, so the caller cannot
  tell the two cases apart. Every run of the handler either completes or gives exactly this
  response. When the password verifies, the handler completes and the session receives the
  user's id, username and admin flag.
\<close>

theorem Login_unauthorized_is_uniform:
  "(let p = GetString req ''principal'';
        pw = GetString req ''password''
    in (case filter (\<lambda>r. Username r = p \<or> Email r = p) (table_user w) of
          [] \<Rightarrow> Login e req w = (CustomAbort StatusUnauthorized [], w)
        | u # rest \<Rightarrow>
            if Encrypt e pw (Salt u) \<noteq> Password u
            then Login e req w = (CustomAbort StatusUnauthorized [], w)
            else (p \<noteq> [] \<and> DBFault e QueryRows = None \<longrightarrow>
              Login e req w = (Finished, issue_session u w)
              \<and> session (snd (Login e req w)) ''userId'' = Some (IntV (UserID u))
              \<and> session (snd (Login e req w)) ''username'' = Some (StrV (Username u))
              \<and> session (snd (Login e req w)) ''isSysAdmin''
                    = Some (BoolV (HasAdminRole u = 1))))
     \<and> (fst (Login e req w) = Finished
          \<or> Login e req w = (CustomAbort StatusUnauthorized [], w)))"
  by (auto simp: Login_def Let_def auth_Login_def QueryRows_user_def issue_session_def
        SetSession_def split: option.splits sum.splits list.splits)

theorem Login_unauthorized_is_uniform_witness:
  "Login sample_env [''principal'' \<mapsto> ''nobody'', ''password'' \<mapsto> ''wonderland''] sample_world
     = (CustomAbort StatusUnauthorized [], sample_world)
   \<and> Login sample_env [''principal'' \<mapsto> ''alice'', ''password'' \<mapsto> ''guess''] sample_world
     = (CustomAbort StatusUnauthorized [], sample_world)
   \<and> Login sample_env [''principal'' \<mapsto> ''alice'', ''password'' \<mapsto> ''wonderland''] sample_world
     = (Finished, issue_session sample_alice sample_world)
   \<and> session (snd (Login sample_env
         [''principal'' \<mapsto> ''alice'', ''password'' \<mapsto> ''wonderland''] sample_world)) ''userId''
     = Some (IntV 2)"
proof -
  have a: "Login sample_env [''principal'' \<mapsto> ''nobody'', ''password'' \<mapsto> ''wonderland'']
             sample_world = (CustomAbort StatusUnauthorized [], sample_world)"
    using Login_unauthorized_is_uniform
      [where req="[''principal'' \<mapsto> ''nobody'', ''password'' \<mapsto> ''wonderland'']"
         and w=sample_world and e=sample_env]
    by (simp add: Let_def GetString_def sample_world_def sample_admin_def sample_alice_def)
  have b: "Login sample_env [''principal'' \<mapsto> ''alice'', ''password'' \<mapsto> ''guess'']
             sample_world = (CustomAbort StatusUnauthorized [], sample_world)"
    using Login_unauthorized_is_uniform
      [where req="[''principal'' \<mapsto> ''alice'', ''password'' \<mapsto> ''guess'']"
         and w=sample_world and e=sample_env]
    by (simp add: Let_def GetString_def sample_world_def sample_env_def sample_admin_def
          sample_alice_def)
  have f: "filter (\<lambda>r. Username r = ''alice'' \<or> Email r = ''alice'') (table_user sample_world)
             = [sample_alice]"
    by (simp add: sample_world_def sample_admin_def sample_alice_def)
  have g: "Encrypt sample_env ''wonderland'' (Salt sample_alice) = Password sample_alice"
    by (simp add: sample_env_def sample_alice_def)
  have h: "DBFault sample_env QueryRows = None"
    by (simp add: sample_env_def)
  have i: "UserID sample_alice = 2"
    by (simp add: sample_alice_def)
  have c: "Login sample_env [''principal'' \<mapsto> ''alice'', ''password'' \<mapsto> ''wonderland'']
             sample_world = (Finished, issue_session sample_alice sample_world)
           \<and> session (snd (Login sample_env
                 [''principal'' \<mapsto> ''alice'', ''password'' \<mapsto> ''wonderland''] sample_world))
               ''userId'' = Some (IntV 2)"
    using Login_unauthorized_is_uniform
      [where req="[''principal'' \<mapsto> ''alice'', ''password'' \<mapsto> ''wonderland'']"
         and w=sample_world and e=sample_env]
    by (auto simp: Let_def GetString_def f g h i)
  from a b c show ?thesis by blast
qed

section \<open>Registration\<close>

text \<open>
  The row that \<^verbatim>\<open>Register\<close> hands to the insert statement, for a given salt.
\<close>

lemma dao_Register_table:
  "table_user (snd (dao_Register e w user)) = table_user w
   \<or> table_user (snd (dao_Register e w user)) = table_user w @
        [\<lparr>UserID = last_insert_id w + 1, Username = Username user, Email = Email user,
          Password = Encrypt e (Password user) (rand_seq w (rand_next w)),
          Realname = Realname user, Comment = Comment user,
          HasAdminRole = HasAdminRole user, ResetUUID = [],
          Salt = rand_seq w (rand_next w), CreationTime = Now e, UpdateTime = Now e\<rparr>]"
  by (simp add: dao_Register_def GenerateRandomString_def Exec_insert_user_def
        split: option.splits)

lemma dao_Register_success:
  assumes "DBFault e Prepare = None" "DBFault e Exec = None" "DBFault e LastInsertId = None"
    and "\<not> list_ex (\<lambda>r. Username r = Username user \<or> Email r = Email user) (table_user w)"
  shows "dao_Register e w user =
     (Inr (last_insert_id w + 1),
      w\<lparr>rand_next := Suc (rand_next w),
        table_user := table_user w @
          [\<lparr>UserID = last_insert_id w + 1, Username = Username user, Email = Email user,
            Password = Encrypt e (Password user) (rand_seq w (rand_next w)),
            Realname = Realname user, Comment = Comment user,
            HasAdminRole = HasAdminRole user, ResetUUID = [],
            Salt = rand_seq w (rand_next w), CreationTime = Now e, UpdateTime = Now e\<rparr>],
        last_insert_id := last_insert_id w + 1\<rparr>)"
  using assms
  by (simp add: dao_Register_def GenerateRandomString_def Exec_insert_user_def)

lemma dao_Register_hash_only:
  assumes "Encrypt e p (rand_seq w (rand_next w)) = Encrypt e (Password user) (rand_seq w (rand_next w))"
  shows "dao_Register e w (user\<lparr>Password := p\<rparr>) = dao_Register e w user"
  using assms
  by (simp add: dao_Register_def GenerateRandomString_def Exec_insert_user_def
        split: option.splits)

text \<open>
  C8. \<^verbatim>\<open>Register\<close> draws a salt from the random generator at every call and hands the
  insert statement the hash of the plaintext under that salt, together with the salt. The
  table is either unchanged (the call failed) or extended by exactly that row; when the
  driver works and no row holds the username or the email, the call succeeds with the next
  id and the generator has advanced. The plaintext reaches the store through the hash only:
  two plaintexts with the same hash under the drawn salt give the same result and the same
  world.
\<close>

theorem dao_Register_stores_hash_and_salt:
  "(let salt = fst (GenerateRandomString w);
        row = \<lparr>UserID = last_insert_id w + 1, Username = Username user, Email = Email user,
                Password = Encrypt e (Password user) salt, Realname = Realname user,
                Comment = Comment user, HasAdminRole = HasAdminRole user, ResetUUID = [],
                Salt = salt, CreationTime = Now e, UpdateTime = Now e\<rparr>
    in (table_user (snd (dao_Register e w user)) = table_user w
        \<or> table_user (snd (dao_Register e w user)) = table_user w @ [row])
     \<and> (DBFault e Prepare = None \<and> DBFault e Exec = None \<and> DBFault e LastInsertId = None
          \<and> \<not> list_ex (\<lambda>r. Username r = Username user \<or> Email r = Email user) (table_user w)
         \<longrightarrow> dao_Register e w user =
               (Inr (last_insert_id w + 1),
                w\<lparr>rand_next := Suc (rand_next w), table_user := table_user w @ [row],
                  last_insert_id := last_insert_id w + 1\<rparr>))
     \<and> (\<forall>p. Encrypt e p salt = Encrypt e (Password user) salt \<longrightarrow>
            dao_Register e w (user\<lparr>Password := p\<rparr>) = dao_Register e w user))"
proof -
  have a: "fst (GenerateRandomString w) = rand_seq w (rand_next w)"
    by (simp add: GenerateRandomString_def)
  show ?thesis
    unfolding Let_def a
    by (intro conjI impI allI dao_Register_table dao_Register_success dao_Register_hash_only)
      simp_all
qed

theorem dao_Register_stores_hash_and_salt_witness:
  "dao_Register sample_env sample_world
     (empty_User\<lparr>Username := ''bob'', Email := ''bob@example.com'', Password := ''secret''\<rparr>)
   = (Inr 3,
      sample_world\<lparr>rand_next := 1,
        table_user := [sample_admin, sample_alice,
          \<lparr>UserID = 3, Username = ''bob'', Email = ''bob@example.com'',
            Password = ''H:r:secret'', Realname = [], Comment = [], HasAdminRole = 0,
            ResetUUID = [], Salt = ''r'', CreationTime = 7, UpdateTime = 7\<rparr>],
        last_insert_id := 3\<rparr>)"
proof -
  let ?bob = "empty_User\<lparr>Username := ''bob'', Email := ''bob@example.com'',
                Password := ''secret''\<rparr>"
  have a: "DBFault sample_env Prepare = None \<and> DBFault sample_env Exec = None
           \<and> DBFault sample_env LastInsertId = None"
    by (simp add: sample_env_def)
  have c: "fst (GenerateRandomString sample_world) = ''r''"
    by (simp add: GenerateRandomString_def sample_world_def)
  have d: "Encrypt sample_env ''secret'' ''r'' = ''H:r:secret'' \<and> Now sample_env = 7"
    by (simp add: sample_env_def)
  have f: "table_user sample_world = [sample_admin, sample_alice]
           \<and> last_insert_id sample_world = 2 \<and> rand_next sample_world = 0"
    by (simp add: sample_world_def)
  show ?thesis
    using dao_Register_stores_hash_and_salt
      [where e=sample_env and w=sample_world and user="?bob", unfolded Let_def,
        THEN conjunct2, THEN conjunct1]
    by (simp add: a c d f empty_User_def sample_admin_def sample_alice_def)
qed

section \<open>Lookups of the reset workflow\<close>

lemma first_row_is_find:
  "(case filter P xs of [] \<Rightarrow> Inr None | x # rest \<Rightarrow> Inr (Some x)) = Inr (find P xs)"
  by (induction xs) auto

lemma dao_GetUser_by_email:
  assumes "DBFault e QueryRows = None" and "email \<noteq> []"
  shows "dao_GetUser e w (empty_User\<lparr>Email := email\<rparr>)
           = Inr (find (\<lambda>r. Email r = email) (table_user w))"
  using assms first_row_is_find [of "\<lambda>r. Email r = email" "table_user w"]
  by (simp add: dao_GetUser_def empty_User_def QueryRows_user_def)

lemma dao_GetUser_by_token:
  assumes "DBFault e QueryRows = None" and "token \<noteq> []"
  shows "dao_GetUser e w (empty_User\<lparr>ResetUUID := token\<rparr>)
           = Inr (find (\<lambda>r. ResetUUID r = token) (table_user w))"
  using assms first_row_is_find [of "\<lambda>r. ResetUUID r = token" "table_user w"]
  by (simp add: dao_GetUser_def empty_User_def QueryRows_user_def)

lemma email_pattern_rejects_empty: "\<not> matches email_pattern []"
  by (simp add: matches_def email_pattern_def plus_def local_char_def lit_def)

lemma valid_email_not_empty: "matches email_pattern email \<Longrightarrow> email \<noteq> []"
  using email_pattern_rejects_empty by auto

lemma find_Some_holds: "find P xs = Some x \<Longrightarrow> P x"
  by (induction xs) (auto split: if_splits)

lemma token_cleared:
  "token \<noteq> [] \<Longrightarrow>
   find (\<lambda>r. ResetUUID r = token)
     (map (\<lambda>r. if ResetUUID r = token then f r\<lparr>ResetUUID := []\<rparr> else r) xs) = None"
  by (induction xs) auto

lemma valid_nobody: "matches email_pattern ''nobody@example.com''"
  by code_simp

lemma valid_alice: "matches email_pattern ''alice@example.com''"
  by code_simp

lemma valid_admin: "matches email_pattern ''admin@example.com''"
  by code_simp

section \<open>Requesting a password reset\<close>

text \<open>
  C4 as stated does not hold. For a valid address that no user has, the handler answers
  status 404 with the body "email_does_not_exist": the body names the reason, and both
  status and body differ from the answer for an address that a user has.
\<close>

theorem SendResetEmail_unknown_email_counterexample:
  "SendResetEmail sample_env [''email'' \<mapsto> ''nobody@example.com''] sample_world
     = (CustomAbort StatusNotFound ''email_does_not_exist'', sample_world)
   \<and> fst (SendResetEmail sample_env [''email'' \<mapsto> ''alice@example.com''] sample_world)
     = CustomAbort StatusForbidden ''Forbidden''
   \<and> fst (SendResetEmail sample_env [''email'' \<mapsto> ''nobody@example.com''] sample_world)
     \<noteq> fst (SendResetEmail sample_env [''email'' \<mapsto> ''alice@example.com''] sample_world)"
proof -
  have q: "DBFault sample_env QueryRows = None"
    by (simp add: sample_env_def)
  have n: "find (\<lambda>r. Email r = ''nobody@example.com'') (table_user sample_world) = None"
    by (simp add: sample_world_def sample_admin_def sample_alice_def)
  have a: "find (\<lambda>r. Email r = ''alice@example.com'') (table_user sample_world)
             = Some sample_alice"
    by (simp add: sample_world_def sample_admin_def sample_alice_def)
  have r: "\<not> isUserResetable sample_env (Some sample_alice)"
    by (simp add: isUserResetable_def sample_env_def sample_alice_def DBAuth_def)
  have x: "SendResetEmail sample_env [''email'' \<mapsto> ''nobody@example.com''] sample_world
             = (CustomAbort StatusNotFound ''email_does_not_exist'', sample_world)"
    by (simp add: SendResetEmail_def GetString_def regexp_MatchString_def valid_nobody
          dao_GetUser_by_email q n)
  have y: "fst (SendResetEmail sample_env [''email'' \<mapsto> ''alice@example.com''] sample_world)
             = CustomAbort StatusForbidden ''Forbidden''"
    by (simp add: SendResetEmail_def GetString_def regexp_MatchString_def valid_alice
          dao_GetUser_by_email q a r StatusText_def)
  from x y show ?thesis by simp
qed

text \<open>
  C4, amended. For every request whose email is syntactically valid and matches no user,
  while the query itself works, the handler fails with status 404 (not found) and the
  caller-visible body "email_does_not_exist"; the world is unchanged, so no token is
  generated or stored and no mail is sent.
\<close>

theorem SendResetEmail_unknown_email:
  assumes "matches email_pattern (GetString req ''email'')"
    and "DBFault e QueryRows = None"
    and "find (\<lambda>r. Email r = GetString req ''email'') (table_user w) = None"
  shows "SendResetEmail e req w = (CustomAbort StatusNotFound ''email_does_not_exist'', w)"
  using assms valid_email_not_empty [OF assms(1)]
  by (simp add: SendResetEmail_def Let_def regexp_MatchString_def dao_GetUser_by_email)

theorem SendResetEmail_unknown_email_witness:
  "matches email_pattern ''nobody@example.com''
   \<and> SendResetEmail sample_env [''email'' \<mapsto> ''nobody@example.com''] sample_world
       = (CustomAbort StatusNotFound ''email_does_not_exist'', sample_world)"
proof -
  have q: "DBFault sample_env QueryRows = None"
    by (simp add: sample_env_def)
  have n: "find (\<lambda>r. Email r = ''nobody@example.com'') (table_user sample_world) = None"
    by (simp add: sample_world_def sample_admin_def sample_alice_def)
  show ?thesis
    using SendResetEmail_unknown_email
      [where req="[''email'' \<mapsto> ''nobody@example.com'']" and e=sample_env and w=sample_world]
    by (simp add: GetString_def valid_nobody q n)
qed

section \<open>Reset eligibility\<close>

text \<open>
  C5 as stated does not hold. When the authentication mode cannot be read from the
  configuration, \<^verbatim>\<open>isUserResetable\<close> returns false for every user, the bootstrap account
  (id 1) included.
\<close>

theorem isUserResetable_counterexample:
  "UserID sample_admin = 1
   \<and> \<not> isUserResetable (sample_env\<lparr>AuthMode := Inl (Err ''config unavailable'')\<rparr>)
         (Some sample_admin)"
  by (simp add: isUserResetable_def sample_admin_def)

text \<open>
  C5, amended. A user is eligible for a password reset iff the authentication mode can be
  read and either it is the local-password mode (DB auth) or the user is the bootstrap
  account (id 1). The same check guards the request and the redemption: for a user found
  by the lookup and not eligible, both handlers stop with status 403 "Forbidden" and leave
  the world unchanged, so that no token is generated or stored and no password is changed.
\<close>

theorem isUserResetable_iff:
  "(isUserResetable e (Some u) \<longleftrightarrow>
      (case AuthMode e of Inl err \<Rightarrow> False | Inr mode \<Rightarrow> mode = DBAuth \<or> UserID u = 1))
   \<and> (matches email_pattern (GetString req ''email'') \<and> DBFault e QueryRows = None
        \<and> find (\<lambda>r. Email r = GetString req ''email'') (table_user w) = Some u
        \<and> \<not> isUserResetable e (Some u)
       \<longrightarrow> SendResetEmail e req w = (CustomAbort StatusForbidden ''Forbidden'', w))
   \<and> (GetString req ''reset_uuid'' \<noteq> [] \<and> DBFault e QueryRows = None
        \<and> find (\<lambda>r. ResetUUID r = GetString req ''reset_uuid'') (table_user w) = Some u
        \<and> \<not> isUserResetable e (Some u)
       \<longrightarrow> ResetPassword e req w = (CustomAbort StatusForbidden ''Forbidden'', w))"
proof (intro conjI impI)
  show "isUserResetable e (Some u) \<longleftrightarrow>
      (case AuthMode e of Inl err \<Rightarrow> False | Inr mode \<Rightarrow> mode = DBAuth \<or> UserID u = 1)"
    by (auto simp: isUserResetable_def split: sum.splits)
next
  assume a: "matches email_pattern (GetString req ''email'') \<and> DBFault e QueryRows = None
        \<and> find (\<lambda>r. Email r = GetString req ''email'') (table_user w) = Some u
        \<and> \<not> isUserResetable e (Some u)"
  then have "GetString req ''email'' \<noteq> []"
    using valid_email_not_empty by blast
  with a show "SendResetEmail e req w = (CustomAbort StatusForbidden ''Forbidden'', w)"
    by (simp add: SendResetEmail_def Let_def regexp_MatchString_def dao_GetUser_by_email
          StatusText_def)
next
  assume "GetString req ''reset_uuid'' \<noteq> [] \<and> DBFault e QueryRows = None
        \<and> find (\<lambda>r. ResetUUID r = GetString req ''reset_uuid'') (table_user w) = Some u
        \<and> \<not> isUserResetable e (Some u)"
  then show "ResetPassword e req w = (CustomAbort StatusForbidden ''Forbidden'', w)"
    by (simp add: ResetPassword_def Let_def dao_GetUser_by_token StatusText_def)
qed

theorem isUserResetable_iff_witness:
  "isUserResetable sample_env (Some sample_admin)
   \<and> \<not> isUserResetable sample_env (Some sample_alice)
   \<and> isUserResetable (sample_env\<lparr>AuthMode := Inr DBAuth\<rparr>) (Some sample_alice)
   \<and> SendResetEmail sample_env [''email'' \<mapsto> ''alice@example.com''] sample_world
       = (CustomAbort StatusForbidden ''Forbidden'', sample_world)
   \<and> ResetPassword sample_env [''reset_uuid'' \<mapsto> ''tok'', ''password'' \<mapsto> ''new''] sample_world
       = (CustomAbort StatusForbidden ''Forbidden'', sample_world)"
proof -
  have q: "DBFault sample_env QueryRows = None"
    by (simp add: sample_env_def)
  have m: "AuthMode sample_env = Inr ''ldap_auth''"
    by (simp add: sample_env_def)
  have i: "UserID sample_admin = 1 \<and> UserID sample_alice = 2"
    by (simp add: sample_admin_def sample_alice_def)
  have fa: "find (\<lambda>r. Email r = ''alice@example.com'') (table_user sample_world)
             = Some sample_alice"
    by (simp add: sample_world_def sample_admin_def sample_alice_def)
  have ft: "find (\<lambda>r. ResetUUID r = ''tok'') (table_user sample_world) = Some sample_alice"
    by (simp add: sample_world_def sample_admin_def sample_alice_def)
  have a: "isUserResetable sample_env (Some sample_admin)"
    using isUserResetable_iff [where e=sample_env and u=sample_admin, THEN conjunct1]
    by (simp add: m i)
  have b: "\<not> isUserResetable sample_env (Some sample_alice)"
    using isUserResetable_iff [where e=sample_env and u=sample_alice, THEN conjunct1]
    by (simp add: m i DBAuth_def)
  have c: "isUserResetable (sample_env\<lparr>AuthMode := Inr DBAuth\<rparr>) (Some sample_alice)"
    using isUserResetable_iff
      [where e="sample_env\<lparr>AuthMode := Inr DBAuth\<rparr>" and u=sample_alice, THEN conjunct1]
    by simp
  have d: "SendResetEmail sample_env [''email'' \<mapsto> ''alice@example.com''] sample_world
       = (CustomAbort StatusForbidden ''Forbidden'', sample_world)"
    using isUserResetable_iff
      [where e=sample_env and u=sample_alice and w=sample_world
         and req="[''email'' \<mapsto> ''alice@example.com'']", THEN conjunct2, THEN conjunct1]
    by (simp add: GetString_def valid_alice q fa b)
  have f: "ResetPassword sample_env [''reset_uuid'' \<mapsto> ''tok'', ''password'' \<mapsto> ''new'']
             sample_world = (CustomAbort StatusForbidden ''Forbidden'', sample_world)"
    using isUserResetable_iff
      [where e=sample_env and u=sample_alice and w=sample_world
         and req="[''reset_uuid'' \<mapsto> ''tok'', ''password'' \<mapsto> ''new'']",
        THEN conjunct2, THEN conjunct2]
    by (simp add: GetString_def q ft b)
  from a b c d f show ?thesis by blast
qed

section \<open>Redeeming a reset token\<close>

text \<open>
  C3 as stated does not hold. For a token that no user holds, the handler answers status
  400 (bad request) with the body "User does not exist", not status 404.
\<close>

theorem ResetPassword_unknown_token_counterexample:
  "ResetPassword sample_env [''reset_uuid'' \<mapsto> ''nosuch'', ''password'' \<mapsto> ''new''] sample_world
     = (CustomAbort StatusBadRequest ''User does not exist'', sample_world)
   \<and> fst (ResetPassword sample_env [''reset_uuid'' \<mapsto> ''nosuch'', ''password'' \<mapsto> ''new'']
            sample_world)
     \<noteq> CustomAbort StatusNotFound ''User does not exist''"
proof -
  have q: "DBFault sample_env QueryRows = None"
    by (simp add: sample_env_def)
  have n: "find (\<lambda>r. ResetUUID r = ''nosuch'') (table_user sample_world) = None"
    by (simp add: sample_world_def sample_admin_def sample_alice_def)
  show ?thesis
    by (simp add: ResetPassword_def GetString_def dao_GetUser_by_token q n)
qed

lemma ResetPassword_no_user:
  assumes "GetString req ''reset_uuid'' \<noteq> []"
    and "DBFault e QueryRows = None"
    and "find (\<lambda>r. ResetUUID r = GetString req ''reset_uuid'') (table_user w) = None"
  shows "ResetPassword e req w = (CustomAbort StatusBadRequest ''User does not exist'', w)"
  using assms by (simp add: ResetPassword_def Let_def dao_GetUser_by_token)

lemma ResetPassword_redeems:
  assumes "GetString req ''reset_uuid'' \<noteq> []"
    and "DBFault e QueryRows = None"
    and "find (\<lambda>r. ResetUUID r = GetString req ''reset_uuid'') (table_user w) = Some u"
    and "isUserResetable e (Some u)"
    and "GetString req ''password'' \<noteq> []"
    and "DBFault e Exec = None"
  shows "ResetPassword e req w =
     (Finished,
      w\<lparr>rand_next := Suc (rand_next w),
        table_user :=
          map (\<lambda>r. if ResetUUID r = GetString req ''reset_uuid''
                    then r\<lparr>Password := Encrypt e (GetString req ''password'')
                                           (rand_seq w (rand_next w)),
                           Salt := rand_seq w (rand_next w), ResetUUID := [],
                           UpdateTime := Now e\<rparr>
                    else r)
            (table_user w)\<rparr>)"
proof -
  have "ResetUUID u = GetString req ''reset_uuid''"
    using find_Some_holds [OF assms(3)] .
  with assms show ?thesis
    by (simp add: ResetPassword_def Let_def dao_GetUser_by_token dao_ResetUserPassword_def
          GenerateRandomString_def)
qed

text \<open>
  C3, amended. For every redemption with a non-empty token that matches no user's
  \<open>resetUUID\<close>, while the query itself works, the handler fails with status 400 (bad
  request) and the body "User does not exist", and changes nothing. In particular, after a
  redemption that succeeded, the same request fails in this way: the token was cleared.
\<close>

theorem ResetPassword_unknown_token:
  "GetString req ''reset_uuid'' \<noteq> [] \<and> DBFault e QueryRows = None \<longrightarrow>
     (find (\<lambda>r. ResetUUID r = GetString req ''reset_uuid'') (table_user w) = None \<longrightarrow>
        ResetPassword e req w = (CustomAbort StatusBadRequest ''User does not exist'', w))
     \<and> (\<forall>u. find (\<lambda>r. ResetUUID r = GetString req ''reset_uuid'') (table_user w) = Some u
             \<and> isUserResetable e (Some u) \<and> GetString req ''password'' \<noteq> []
             \<and> DBFault e Exec = None \<longrightarrow>
           fst (ResetPassword e req w) = Finished
           \<and> ResetPassword e req (snd (ResetPassword e req w))
               = (CustomAbort StatusBadRequest ''User does not exist'',
                  snd (ResetPassword e req w)))"
proof (intro impI conjI allI)
  assume a: "GetString req ''reset_uuid'' \<noteq> [] \<and> DBFault e QueryRows = None"
  {
    assume "find (\<lambda>r. ResetUUID r = GetString req ''reset_uuid'') (table_user w) = None"
    with a show "ResetPassword e req w
                   = (CustomAbort StatusBadRequest ''User does not exist'', w)"
      by (simp add: ResetPassword_no_user)
  }
  fix u
  assume b: "find (\<lambda>r. ResetUUID r = GetString req ''reset_uuid'') (table_user w) = Some u
             \<and> isUserResetable e (Some u) \<and> GetString req ''password'' \<noteq> []
             \<and> DBFault e Exec = None"
  let ?t = "GetString req ''reset_uuid''"
  let ?f = "\<lambda>r. r\<lparr>Password := Encrypt e (GetString req ''password'')
                                  (rand_seq w (rand_next w)),
                   Salt := rand_seq w (rand_next w), UpdateTime := Now e\<rparr>"
  let ?w = "w\<lparr>rand_next := Suc (rand_next w),
              table_user := map (\<lambda>r. if ResetUUID r = ?t then ?f r\<lparr>ResetUUID := []\<rparr> else r)
                              (table_user w)\<rparr>"
  have r: "ResetPassword e req w = (Finished, ?w)"
    using a b ResetPassword_redeems [of req e w u] by simp
  then show "fst (ResetPassword e req w) = Finished"
    by simp
  have "find (\<lambda>r. ResetUUID r = ?t) (table_user ?w) = None"
    using a token_cleared [of ?t ?f "table_user w"] by simp
  then have "ResetPassword e req ?w
               = (CustomAbort StatusBadRequest ''User does not exist'', ?w)"
    using a ResetPassword_no_user [of req e ?w] by simp
  with r show "ResetPassword e req (snd (ResetPassword e req w))
               = (CustomAbort StatusBadRequest ''User does not exist'',
                  snd (ResetPassword e req w))"
    by simp
qed

theorem ResetPassword_unknown_token_witness:
  "ResetPassword sample_env [''reset_uuid'' \<mapsto> ''nosuch'', ''password'' \<mapsto> ''new''] sample_world
     = (CustomAbort StatusBadRequest ''User does not exist'', sample_world)
   \<and> fst (ResetPassword (sample_env\<lparr>AuthMode := Inr DBAuth\<rparr>)
            [''reset_uuid'' \<mapsto> ''tok'', ''password'' \<mapsto> ''new''] sample_world) = Finished
   \<and> fst (ResetPassword (sample_env\<lparr>AuthMode := Inr DBAuth\<rparr>)
            [''reset_uuid'' \<mapsto> ''tok'', ''password'' \<mapsto> ''new'']
            (snd (ResetPassword (sample_env\<lparr>AuthMode := Inr DBAuth\<rparr>)
                    [''reset_uuid'' \<mapsto> ''tok'', ''password'' \<mapsto> ''new''] sample_world)))
     = CustomAbort StatusBadRequest ''User does not exist''"
proof -
  let ?e = "sample_env\<lparr>AuthMode := Inr DBAuth\<rparr>"
  let ?req = "[''reset_uuid'' \<mapsto> ''tok'', ''password'' \<mapsto> ''new'']"
  have q: "DBFault sample_env QueryRows = None \<and> DBFault sample_env Exec = None"
    by (simp add: sample_env_def)
  have n: "find (\<lambda>r. ResetUUID r = ''nosuch'') (table_user sample_world) = None"
    by (simp add: sample_world_def sample_admin_def sample_alice_def)
  have ft: "find (\<lambda>r. ResetUUID r = ''tok'') (table_user sample_world) = Some sample_alice"
    by (simp add: sample_world_def sample_admin_def sample_alice_def)
  have c: "isUserResetable ?e (Some sample_alice)"
    by (simp add: isUserResetable_def)
  have a: "ResetPassword sample_env [''reset_uuid'' \<mapsto> ''nosuch'', ''password'' \<mapsto> ''new'']
             sample_world = (CustomAbort StatusBadRequest ''User does not exist'', sample_world)"
    using ResetPassword_unknown_token
      [where e=sample_env and w=sample_world
         and req="[''reset_uuid'' \<mapsto> ''nosuch'', ''password'' \<mapsto> ''new'']"]
    by (simp add: GetString_def q n)
  have b: "fst (ResetPassword ?e ?req sample_world) = Finished
           \<and> ResetPassword ?e ?req (snd (ResetPassword ?e ?req sample_world))
               = (CustomAbort StatusBadRequest ''User does not exist'',
                  snd (ResetPassword ?e ?req sample_world))"
    using ResetPassword_unknown_token [where e="?e" and w=sample_world and req="?req"]
    by (simp add: GetString_def q ft c)
  from a b show ?thesis by simp
qed

section \<open>Token persistence and dispatch\<close>

lemma SendResetEmail_after_store:
  assumes "matches email_pattern (GetString req ''email'')"
    and "DBFault e QueryRows = None"
    and "find (\<lambda>r. Email r = GetString req ''email'') (table_user w) = Some u"
    and "isUserResetable e (Some u)"
    and "DBFault e Exec = None"
  shows "SendResetEmail e req w =
     (case ParseFiles e ''views/reset-password-mail.tpl'' of
        Inl err \<Rightarrow> (CustomAbort StatusInternalServerError (Error_text err),
                    token_stored e (GetString req ''email'') w)
      | Inr messageTemplate \<Rightarrow>
          (case ExtEndpoint e of
             Inl err \<Rightarrow> (CustomAbort StatusInternalServerError ''Internal Server Error'',
                         token_stored e (GetString req ''email'') w)
           | Inr harborURL \<Rightarrow>
               (case messageTemplate \<lparr>Hint = Tr e ''reset_email_hint'', URL = harborURL,
                                       UUID = rand_seq w (rand_next w)\<rparr> of
                  Inl err \<Rightarrow> (CustomAbort StatusInternalServerError ''internal_error'',
                              token_stored e (GetString req ''email'') w)
                | Inr message \<Rightarrow>
                    (case EmailCfg e of
                       Inl err \<Rightarrow> (CustomAbort StatusInternalServerError ''internal_error'',
                                   token_stored e (GetString req ''email'') w)
                     | Inr settings \<Rightarrow>
                         (case Send e settings [GetString req ''email'']
                                 ''Reset Harbor user password'' message of
                            Some err \<Rightarrow>
                              (CustomAbort StatusInternalServerError ''send_email_failed'',
                               token_stored e (GetString req ''email'') w)
                          | None \<Rightarrow>
                              (Finished,
                               (token_stored e (GetString req ''email'') w)
                               \<lparr>outbox := outbox w @
                                  [([GetString req ''email''], ''Reset Harbor user password'',
                                    message)]\<rparr>))))))"
  using assms valid_email_not_empty [OF assms(1)]
  by (simp add: SendResetEmail_def Let_def regexp_MatchString_def dao_GetUser_by_email
        GenerateRandomString_def dao_UpdateUserResetUUID_def token_stored_def
        StatusText_def
      split: sum.splits option.splits)

lemma find_map_same:
  "(\<And>x. P (f x) = P x) \<Longrightarrow> find P (map f xs) = map_option f (find P xs)"
  by (induction xs) auto

lemma find_Some_member: "find P xs = Some x \<Longrightarrow> x \<in> set xs"
  by (induction xs) (auto split: if_splits)

lemma find_other_key:
  assumes "find P xs = Some x" and "Q x"
  shows "\<exists>y. find Q xs = Some y \<and> Q y"
proof (cases "find Q xs")
  case None
  then have "\<not> Q x"
    using find_Some_member [OF assms(1)] by (simp add: find_None_iff)
  with assms(2) show ?thesis by simp
next
  case (Some y)
  then show ?thesis using find_Some_holds by fastforce
qed

lemma token_stored_find:
  assumes "find (\<lambda>r. Email r = email) (table_user w) = Some u"
  shows "find (\<lambda>r. Email r = email) (table_user (token_stored e email w))
           = Some (u\<lparr>ResetUUID := rand_seq w (rand_next w), UpdateTime := Now e\<rparr>)"
proof -
  have "Email u = email"
    using find_Some_holds [OF assms] .
  moreover have "find (\<lambda>r. Email r = email) (table_user (token_stored e email w))
      = map_option (\<lambda>r. if Email r = email
                          then r\<lparr>ResetUUID := rand_seq w (rand_next w), UpdateTime := Now e\<rparr>
                          else r)
          (find (\<lambda>r. Email r = email) (table_user w))"
    unfolding token_stored_def by (simp add: find_map_same)
  ultimately show ?thesis using assms by simp
qed

lemma token_stored_redeemable:
  assumes "find (\<lambda>r. Email r = email) (table_user w) = Some u"
    and "DBFault e QueryRows = None"
    and "rand_seq w (rand_next w) \<noteq> []"
  shows "\<exists>r. dao_GetUser e (token_stored e email w)
                (empty_User\<lparr>ResetUUID := rand_seq w (rand_next w)\<rparr>) = Inr (Some r)
             \<and> ResetUUID r = rand_seq w (rand_next w)"
  using find_other_key [OF token_stored_find [OF assms(1), of e],
      of "\<lambda>r. ResetUUID r = rand_seq w (rand_next w)"] assms(2,3)
  by (simp add: dao_GetUser_by_token)

lemma SendResetEmail_store_fails:
  assumes "matches email_pattern (GetString req ''email'')"
    and "DBFault e QueryRows = None"
    and "find (\<lambda>r. Email r = GetString req ''email'') (table_user w) = Some u"
    and "isUserResetable e (Some u)"
    and "DBFault e Exec = Some err"
  shows "SendResetEmail e req w =
     (CustomAbort StatusInternalServerError ''Internal Server Error'',
      w\<lparr>rand_next := Suc (rand_next w)\<rparr>)"
  using assms valid_email_not_empty [OF assms(1)]
  by (simp add: SendResetEmail_def Let_def regexp_MatchString_def dao_GetUser_by_email
        GenerateRandomString_def dao_UpdateUserResetUUID_def StatusText_def)

lemma SendResetEmail_after_store_outcome:
  assumes "matches email_pattern (GetString req ''email'')"
    and "DBFault e QueryRows = None"
    and "find (\<lambda>r. Email r = GetString req ''email'') (table_user w) = Some u"
    and "isUserResetable e (Some u)"
    and "DBFault e Exec = None"
  shows "table_user (snd (SendResetEmail e req w))
           = table_user (token_stored e (GetString req ''email'') w)
         \<and> (fst (SendResetEmail e req w) = Finished
             \<or> (\<exists>body. fst (SendResetEmail e req w)
                   = CustomAbort StatusInternalServerError body))"
  unfolding SendResetEmail_after_store [OF assms]
  by (simp split: sum.splits option.splits)

lemma SendResetEmail_send_fails:
  assumes "matches email_pattern (GetString req ''email'')"
    and "DBFault e QueryRows = None"
    and "find (\<lambda>r. Email r = GetString req ''email'') (table_user w) = Some u"
    and "isUserResetable e (Some u)"
    and "DBFault e Exec = None"
    and "ParseFiles e ''views/reset-password-mail.tpl'' = Inr tpl"
    and "ExtEndpoint e = Inr url"
    and "tpl \<lparr>Hint = Tr e ''reset_email_hint'', URL = url, UUID = rand_seq w (rand_next w)\<rparr>
           = Inr msg"
    and "EmailCfg e = Inr settings"
    and "Send e settings [GetString req ''email''] ''Reset Harbor user password'' msg = Some err"
  shows "SendResetEmail e req w =
     (CustomAbort StatusInternalServerError ''send_email_failed'',
      token_stored e (GetString req ''email'') w)"
  unfolding SendResetEmail_after_store [OF assms(1-5)]
  using assms(6-10) by simp

text \<open>
  C7. In a reset request that reaches the store (valid address, user found and eligible),
  the token is stored before anything is sent: when the update fails, the handler stops
  with status 500 and no mail is sent; when it succeeds, every later outcome, completion or
  failure, leaves the table with the new token on the user's row. In particular, when the
  mail server refuses the mail, the handler answers status 500 "send_email_failed" (the
  failure is reported, not swallowed), the stored token is not rolled back, and a lookup by
  that token still finds a user: the token stays redeemable.
\<close>

theorem SendResetEmail_dispatch_failure_keeps_token:
  assumes "matches email_pattern (GetString req ''email'')"
    and "DBFault e QueryRows = None"
    and "find (\<lambda>r. Email r = GetString req ''email'') (table_user w) = Some u"
    and "isUserResetable e (Some u)"
  shows "(let email = GetString req ''email'';
              uuid = fst (GenerateRandomString w);
              stored = w\<lparr>rand_next := Suc (rand_next w),
                         table_user :=
                           map (\<lambda>r. if Email r = email
                                     then r\<lparr>ResetUUID := uuid, UpdateTime := Now e\<rparr> else r)
                             (table_user w)\<rparr>
          in (\<forall>err. DBFault e Exec = Some err \<longrightarrow>
                SendResetEmail e req w =
                  (CustomAbort StatusInternalServerError ''Internal Server Error'',
                   w\<lparr>rand_next := Suc (rand_next w)\<rparr>))
           \<and> (DBFault e Exec = None \<longrightarrow>
                table_user (snd (SendResetEmail e req w)) = table_user stored
                \<and> find (\<lambda>r. Email r = email) (table_user stored)
                    = Some (u\<lparr>ResetUUID := uuid, UpdateTime := Now e\<rparr>)
                \<and> (fst (SendResetEmail e req w) = Finished
                    \<or> (\<exists>body. fst (SendResetEmail e req w)
                          = CustomAbort StatusInternalServerError body))
                \<and> (\<forall>tpl url msg settings err.
                      ParseFiles e ''views/reset-password-mail.tpl'' = Inr tpl
                      \<and> ExtEndpoint e = Inr url
                      \<and> tpl \<lparr>Hint = Tr e ''reset_email_hint'', URL = url, UUID = uuid\<rparr> = Inr msg
                      \<and> EmailCfg e = Inr settings
                      \<and> Send e settings [email] ''Reset Harbor user password'' msg = Some err
                      \<longrightarrow> SendResetEmail e req w =
                            (CustomAbort StatusInternalServerError ''send_email_failed'', stored))
                \<and> (uuid \<noteq> [] \<longrightarrow>
                     (\<exists>r. dao_GetUser e stored (empty_User\<lparr>ResetUUID := uuid\<rparr>) = Inr (Some r)
                          \<and> ResetUUID r = uuid))))"
proof -
  let ?email = "GetString req ''email''"
  have u: "fst (GenerateRandomString w) = rand_seq w (rand_next w)"
    by (simp add: GenerateRandomString_def)
  have s: "w\<lparr>rand_next := Suc (rand_next w),
             table_user :=
               map (\<lambda>r. if Email r = ?email
                         then r\<lparr>ResetUUID := rand_seq w (rand_next w), UpdateTime := Now e\<rparr>
                         else r)
                 (table_user w)\<rparr> = token_stored e ?email w"
    by (simp add: token_stored_def)
  have a: "\<forall>err. DBFault e Exec = Some err \<longrightarrow>
            SendResetEmail e req w =
              (CustomAbort StatusInternalServerError ''Internal Server Error'',
               w\<lparr>rand_next := Suc (rand_next w)\<rparr>)"
    using SendResetEmail_store_fails [OF assms] by blast
  have b: "DBFault e Exec = None \<longrightarrow>
            table_user (snd (SendResetEmail e req w)) = table_user (token_stored e ?email w)
            \<and> (fst (SendResetEmail e req w) = Finished
                \<or> (\<exists>body. fst (SendResetEmail e req w)
                      = CustomAbort StatusInternalServerError body))"
    using SendResetEmail_after_store_outcome [OF assms] by blast
  have c: "find (\<lambda>r. Email r = ?email) (table_user (token_stored e ?email w))
            = Some (u\<lparr>ResetUUID := rand_seq w (rand_next w), UpdateTime := Now e\<rparr>)"
    using token_stored_find [OF assms(3)] .
  have d: "DBFault e Exec = None \<longrightarrow>
      (\<forall>tpl url msg settings err.
          ParseFiles e ''views/reset-password-mail.tpl'' = Inr tpl
          \<and> ExtEndpoint e = Inr url
          \<and> tpl \<lparr>Hint = Tr e ''reset_email_hint'', URL = url,
                  UUID = rand_seq w (rand_next w)\<rparr> = Inr msg
          \<and> EmailCfg e = Inr settings
          \<and> Send e settings [?email] ''Reset Harbor user password'' msg = Some err
          \<longrightarrow> SendResetEmail e req w =
                (CustomAbort StatusInternalServerError ''send_email_failed'',
                 token_stored e ?email w))"
    using SendResetEmail_send_fails [OF assms] by blast
  have f: "rand_seq w (rand_next w) \<noteq> [] \<longrightarrow>
      (\<exists>r. dao_GetUser e (token_stored e ?email w)
              (empty_User\<lparr>ResetUUID := rand_seq w (rand_next w)\<rparr>) = Inr (Some r)
           \<and> ResetUUID r = rand_seq w (rand_next w))"
    using token_stored_redeemable [OF assms(3) assms(2)] by blast
  show ?thesis
    unfolding Let_def u s
    using a b c d f by blast
qed

theorem SendResetEmail_dispatch_failure_keeps_token_witness:
  "SendResetEmail
     (sample_env\<lparr>AuthMode := Inr DBAuth, Send := (\<lambda>s to subj body. Some (Err ''refused''))\<rparr>)
     [''email'' \<mapsto> ''alice@example.com''] sample_world
   = (CustomAbort StatusInternalServerError ''send_email_failed'',
      sample_world\<lparr>rand_next := 1,
        table_user := [sample_admin, sample_alice\<lparr>ResetUUID := ''r'', UpdateTime := 7\<rparr>]\<rparr>)"
proof -
  let ?e = "sample_env\<lparr>AuthMode := Inr DBAuth,
              Send := (\<lambda>s to subj body. Some (Err ''refused''))\<rparr>"
  let ?req = "[''email'' \<mapsto> ''alice@example.com'']"
  have v: "matches email_pattern (GetString ?req ''email'')"
    by (simp add: GetString_def valid_alice)
  have q: "DBFault ?e QueryRows = None"
    by (simp add: sample_env_def)
  have x: "DBFault ?e Exec = None"
    by (simp add: sample_env_def)
  have fa: "find (\<lambda>r. Email r = GetString ?req ''email'') (table_user sample_world)
              = Some sample_alice"
    by (simp add: GetString_def sample_world_def sample_admin_def sample_alice_def)
  have c: "isUserResetable ?e (Some sample_alice)"
    by (simp add: isUserResetable_def)
  have g: "fst (GenerateRandomString sample_world) = ''r''"
    by (simp add: GenerateRandomString_def sample_world_def)
  have t: "table_user sample_world = [sample_admin, sample_alice]
           \<and> rand_next sample_world = 0"
    by (simp add: sample_world_def)
  have m: "Email sample_admin \<noteq> ''alice@example.com''
           \<and> Email sample_alice = ''alice@example.com''"
    by (simp add: sample_admin_def sample_alice_def)
  note T = SendResetEmail_dispatch_failure_keeps_token
             [OF v q fa c, unfolded Let_def, THEN conjunct2, THEN mp, OF x,
               THEN conjunct2, THEN conjunct2, THEN conjunct2, THEN conjunct1, rule_format,
               of "\<lambda>d. Inr (Hint d @ '' '' @ URL d @ ''/reset?uuid='' @ UUID d)"
                  "''https://harbor.example.com''"
                  "''reset_email_hint https://harbor.example.com/reset?uuid=r''"
                  sample_settings "Err ''refused''"]
  have "SendResetEmail ?e ?req sample_world
          = (CustomAbort StatusInternalServerError ''send_email_failed'',
             sample_world\<lparr>rand_next := Suc (rand_next sample_world),
               table_user :=
                 map (\<lambda>r. if Email r = GetString ?req ''email''
                           then r\<lparr>ResetUUID := fst (GenerateRandomString sample_world),
                                  UpdateTime := Now ?e\<rparr>
                           else r)
                   (table_user sample_world)\<rparr>)"
    by (rule T) (simp add: sample_env_def g)
  then show ?thesis
    by (simp add: g t m GetString_def sample_env_def)
qed

section \<open>OAuth onboarding\<close>











end
